theory Spec2Isabelle
  imports Complex_Main "HOL-Library.AList" "HOL-Library.Sublist" "HOL-Library.Log_Nat"
begin

section \<open>Cells, series and data frames\<close>

text \<open>
  The transformer of \<^verbatim>\<open>src/data_transformer.py\<close> works on pandas data frames. A cell of a
  frame is a missing value (pandas' NaN), a string, a number or a truth value. Numbers
  are carried as rationals: every finite binary64 value is one, and so is every decimal.

  A series is the list of the cells of one column, in row order; the rows carry the
  default positional index \<open>0 .. n - 1\<close>, as the frames built by the pandas readers do.
  A data frame is its number of rows together with its columns in order, each a name
  and a series.
\<close>

datatype cell = NaN | Str string | Num rat | Bool bool

type_synonym series = "cell list"

record dataframe =
  nrows :: nat
  columns :: "(string \<times> series) list"

datatype error = IndexError | KeyError | TypeError

text \<open>
  Conversions that the Python runtime and its libraries supply, and that the repository
  only calls: the text of a number (\<^verbatim>\<open>str(x)\<close>), the number that \<^verbatim>\<open>pd.to_numeric\<close> reads
  from a string (\<open>None\<close> where it cannot), the value that \<^verbatim>\<open>Decimal(s)\<close> reads from a
  string (\<open>None\<close> where it raises), and the text of a Python list (\<^verbatim>\<open>repr\<close>, as an
  f-string prints it). They are parameters of the model.
\<close>

record pylib =
  str_of_num :: "rat \<Rightarrow> string"
  numeric_of_str :: "string \<Rightarrow> rat option"
  decimal_of_str :: "string \<Rightarrow> rat option"
  repr_list :: "cell list \<Rightarrow> string"

subsection \<open>Strings\<close>

text \<open>
  \<^verbatim>\<open>str.strip()\<close> removes the leading and the trailing whitespace; \<open>is_space\<close> holds of the
  ASCII characters that Python counts as whitespace.
\<close>

definition is_space :: "char \<Rightarrow> bool" where
  "is_space c = (c \<in> set [CHR '' '', CHR 0x09, CHR 0x0A, CHR 0x0B, CHR 0x0C, CHR 0x0D,
                            CHR 0x1C, CHR 0x1D, CHR 0x1E, CHR 0x1F])"

definition strip :: "string \<Rightarrow> string" where
  "strip s = rev (dropWhile is_space (rev (dropWhile is_space s)))"

text \<open>
  \<^verbatim>\<open>str(v)\<close> of a cell value, which is what \<^verbatim>\<open>astype(str)\<close> applies to each cell: the
  text of a missing cell is \<^verbatim>\<open>nan\<close>, the text that \<^verbatim>\<open>_clean_text_data\<close> goes on to replace.
\<close>

fun py_str :: "pylib \<Rightarrow> cell \<Rightarrow> string" where
  "py_str L NaN = ''nan''"
| "py_str L (Str s) = s"
| "py_str L (Num q) = str_of_num L q"
| "py_str L (Bool b) = (if b then ''True'' else ''False'')"

subsection \<open>Numbers\<close>

text \<open>
  \<open>rint\<close> is rounding to the nearest integer with ties to the even one (numpy's
  \<^verbatim>\<open>rint\<close>); \<open>fl\<close> rounds a rational to the nearest binary64 value, ties to even
  (53 significant bits, gradual underflow below \<open>2\<^sup>-\<^sup>1\<^sup>0\<^sup>2\<^sup>2\<close>; overflow to infinity is
  outside the model).
\<close>

definition rint :: "rat \<Rightarrow> int" where
  "rint x =
     (let f = \<lfloor>x\<rfloor>; d = x - of_int f
      in if d < 1 / 2 then f else if 1 / 2 < d then f + 1
         else if even f then f else f + 1)"

definition pow2 :: "int \<Rightarrow> rat" where
  "pow2 e = (if 0 \<le> e then 2 ^ nat e else 1 / 2 ^ nat (- e))"

text \<open>For \<open>0 < x\<close>, \<open>ilog2 x\<close> is the exponent \<open>e\<close> with \<open>2\<^sup>e \<le> x < 2\<^sup>e\<^sup>+\<^sup>1\<close>.\<close>

definition ilog2 :: "rat \<Rightarrow> int" where
  "ilog2 x =
     (if 1 \<le> x then int (floorlog 2 (nat \<lfloor>x\<rfloor>)) - 1
      else - int (floorlog 2 (nat (\<lceil>1 / x\<rceil> - 1))))"

definition fl :: "rat \<Rightarrow> rat" where
  "fl x =
     (if x = 0 then 0
      else let e = max (ilog2 \<bar>x\<bar>) (- 1022); ulp = pow2 (e - 52)
           in of_int (rint (x / ulp)) * ulp)"

text \<open>
  \<^verbatim>\<open>Series.round(decimals)\<close> is numpy's \<^verbatim>\<open>round\<close>: scale by the power of ten, \<^verbatim>\<open>rint\<close>,
  scale back, each step in binary64.
\<close>

definition np_round :: "int \<Rightarrow> rat \<Rightarrow> rat" where
  "np_round decimals x =
     (let f = fl (10 ^ nat \<bar>decimals\<bar>)
      in if 0 \<le> decimals then fl (of_int (rint (fl (x * f))) / f)
         else fl (of_int (rint (fl (x / f))) * f))"

text \<open>
  \<^verbatim>\<open>Decimal.quantize(Decimal('0.' + '0' * decimal_places), rounding=ROUND_HALF_UP)\<close>:
  the string repetition is empty for a count below one, so the exponent is
  \<open>- nat decimal_places\<close>; ties go away from zero; the operation signals
  \<^verbatim>\<open>InvalidOperation\<close> when the coefficient of the result needs more than the 28 digits
  of the default context.
\<close>

definition round_half_up :: "rat \<Rightarrow> int" where
  "round_half_up x = (if 0 \<le> x then \<lfloor>x + 1 / 2\<rfloor> else - \<lfloor>- x + 1 / 2\<rfloor>)"

definition quantize :: "int \<Rightarrow> rat \<Rightarrow> rat option" where
  "quantize decimal_places d =
     (let p = 10 ^ nat decimal_places; n = round_half_up (d * p)
      in if 10 ^ 28 \<le> \<bar>n\<bar> then None else Some (of_int n / p))"

subsection \<open>Series operations\<close>

definition isna :: "cell \<Rightarrow> bool" where
  "isna c = (case c of NaN \<Rightarrow> True | _ \<Rightarrow> False)"

definition fillna :: "series \<Rightarrow> cell \<Rightarrow> series" where
  "fillna s v = map (\<lambda>c. if isna c then v else c) s"

definition astype_str :: "pylib \<Rightarrow> series \<Rightarrow> series" where
  "astype_str L s = map (\<lambda>c. Str (py_str L c)) s"

text \<open>\<^verbatim>\<open>.str.strip()\<close> trims the strings of a series and yields NaN for any other cell.\<close>

definition str_strip :: "series \<Rightarrow> series" where
  "str_strip s = map (\<lambda>c. case c of Str t \<Rightarrow> Str (strip t) | _ \<Rightarrow> NaN) s"

text \<open>\<^verbatim>\<open>.replace(a, b)\<close> replaces the cells equal to \<open>a\<close>, whole cells only.\<close>

definition replace_value :: "cell \<Rightarrow> cell \<Rightarrow> series \<Rightarrow> series" where
  "replace_value a b s = map (\<lambda>c. if c = a then b else c) s"

text \<open>\<^verbatim>\<open>pd.to_numeric(series, errors='coerce')\<close>: a cell that does not parse becomes NaN.\<close>

fun to_numeric_cell :: "pylib \<Rightarrow> cell \<Rightarrow> cell" where
  "to_numeric_cell L NaN = NaN"
| "to_numeric_cell L (Num q) = Num q"
| "to_numeric_cell L (Bool b) = Num (if b then 1 else 0)"
| "to_numeric_cell L (Str t) = (case numeric_of_str L t of None \<Rightarrow> NaN | Some q \<Rightarrow> Num q)"

definition to_numeric :: "pylib \<Rightarrow> series \<Rightarrow> series" where
  "to_numeric L s = map (to_numeric_cell L) s"

definition series_round :: "int \<Rightarrow> series \<Rightarrow> series" where
  "series_round decimals s = map (\<lambda>c. case c of Num q \<Rightarrow> Num (np_round decimals q) | _ \<Rightarrow> c) s"

text \<open>
  \<^verbatim>\<open>Series.duplicated()\<close> with its default \<^verbatim>\<open>keep='first'\<close>: a cell is marked when an equal
  cell stands before it.
\<close>

fun duplicated_from :: "cell list \<Rightarrow> series \<Rightarrow> bool list" where
  "duplicated_from seen [] = []"
| "duplicated_from seen (c # cs) = (c \<in> set seen) # duplicated_from (c # seen) cs"

definition duplicated :: "series \<Rightarrow> bool list" where
  "duplicated s = duplicated_from [] s"

text \<open>Selection by a boolean mask, \<^verbatim>\<open>df[mask][name]\<close>.\<close>

definition boolean_select :: "series \<Rightarrow> bool list \<Rightarrow> series" where
  "boolean_select s selected = map fst (filter snd (zip s selected))"

text \<open>
  \<^verbatim>\<open>series < 0\<close>: NaN compares false, a truth value compares as 0 or 1, and a string
  against a number raises \<^verbatim>\<open>TypeError\<close>.
\<close>

fun lt_zero_cell :: "cell \<Rightarrow> error + bool" where
  "lt_zero_cell NaN = Inr False"
| "lt_zero_cell (Num q) = Inr (q < 0)"
| "lt_zero_cell (Bool b) = Inr False"
| "lt_zero_cell (Str t) = Inl TypeError"

fun lt_zero :: "series \<Rightarrow> error + bool list" where
  "lt_zero [] = Inr []"
| "lt_zero (c # cs) =
     (case lt_zero_cell c of Inl e \<Rightarrow> Inl e
      | Inr b \<Rightarrow> (case lt_zero cs of Inl e \<Rightarrow> Inl e | Inr bs \<Rightarrow> Inr (b # bs)))"

subsection \<open>Frame operations\<close>

text \<open>Sequencing of steps that may raise: the first error ends the computation.\<close>

definition and_then :: "error + 'a \<Rightarrow> ('a \<Rightarrow> error + 'b) \<Rightarrow> error + 'b" where
  "and_then r f = (case r of Inl e \<Rightarrow> Inl e | Inr x \<Rightarrow> f x)"

text \<open>\<^verbatim>\<open>pd.DataFrame(index=range(n), columns=names)\<close>: every cell missing.\<close>

definition new_frame :: "nat \<Rightarrow> string list \<Rightarrow> dataframe" where
  "new_frame n names = \<lparr>nrows = n, columns = map (\<lambda>c. (c, replicate n NaN)) names\<rparr>"

text \<open>\<^verbatim>\<open>df[name]\<close> raises \<^verbatim>\<open>KeyError\<close> for a name that is no column.\<close>

definition getitem :: "dataframe \<Rightarrow> string \<Rightarrow> error + series" where
  "getitem df name = (case map_of (columns df) name of None \<Rightarrow> Inl KeyError | Some s \<Rightarrow> Inr s)"

text \<open>
  \<^verbatim>\<open>df[name] = series\<close> aligns the series on the frame's index: row \<open>k\<close> takes the cell
  the series has at label \<open>k\<close>, and NaN where it has none. An existing column is
  replaced in place, a new one is appended.
\<close>

definition reindex :: "nat \<Rightarrow> series \<Rightarrow> series" where
  "reindex n s = map (\<lambda>k. if k < length s then s ! k else NaN) [0..<n]"

definition setitem :: "dataframe \<Rightarrow> string \<Rightarrow> series \<Rightarrow> dataframe" where
  "setitem df name s = df\<lparr>columns := AList.update name (reindex (nrows df) s) (columns df)\<rparr>"

text \<open>\<^verbatim>\<open>df[name] = value\<close> with a scalar fills the column with it.\<close>

definition setitem_scalar :: "dataframe \<Rightarrow> string \<Rightarrow> cell \<Rightarrow> dataframe" where
  "setitem_scalar df name v =
     df\<lparr>columns := AList.update name (replicate (nrows df) v) (columns df)\<rparr>"

text \<open>
  \<^verbatim>\<open>df.iloc[:, i]\<close>: a negative position counts from the last column, and a position
  outside \<open>- n .. n - 1\<close> raises \<^verbatim>\<open>IndexError\<close>.
\<close>

definition iloc_column :: "dataframe \<Rightarrow> int \<Rightarrow> error + series" where
  "iloc_column df i =
     (let n = int (length (columns df)); j = (if i < 0 then n + i else i)
      in if 0 \<le> j \<and> j < n then Inr (snd (columns df ! nat j)) else Inl IndexError)"

text \<open>
  \<^verbatim>\<open>df.dropna(subset=names)\<close> keeps the rows that have no missing cell in the named
  columns, in their order. Every column of a pandas frame has \<open>nrows\<close> cells, so the
  reads below are in range.
\<close>

definition kept_rows :: "string list \<Rightarrow> dataframe \<Rightarrow> nat list" where
  "kept_rows names df =
     filter (\<lambda>k. \<forall>name \<in> set names. \<not> isna (the (map_of (columns df) name) ! k))
       [0..<nrows df]"

definition dropna :: "string list \<Rightarrow> dataframe \<Rightarrow> error + dataframe" where
  "dropna names df =
     (if \<not> set names \<subseteq> fst ` set (columns df) then Inl KeyError
      else
        let keep = kept_rows names df
        in Inr \<lparr>nrows = length keep,
                 columns = map (\<lambda>(name, s). (name, map (\<lambda>k. s ! k) keep)) (columns df)\<rparr>)"

section \<open>The transformer\<close>

definition odoo_columns :: "string list" where
  "odoo_columns =
     [''Internal Reference'', ''Name'', ''Can be Sold'', ''Can be Purchased'',
      ''Product Type'', ''Category'', ''Sale Price'', ''Cost'', ''Quantity On Hand'',
      ''Weight'', ''Volume'', ''Barcode'', ''Description for Quotations'',
      ''Description for Receipts'', ''Customer Taxes'', ''Vendor Taxes'']"

definition clean_text_data :: "pylib \<Rightarrow> series \<Rightarrow> series" where
  "clean_text_data L s = replace_value (Str ''nan'') (Str []) (str_strip (astype_str L s))"

definition clean_float_data :: "pylib \<Rightarrow> series \<Rightarrow> int \<Rightarrow> series" where
  "clean_float_data L s decimal_places =
     (let numeric_series = to_numeric L s;
          rounded_series = series_round decimal_places numeric_series
      in rounded_series)"

text \<open>
  The \<^verbatim>\<open>if\<close>/\<^verbatim>\<open>elif\<close> chain of the mapping loop; the cleaners run with their default of
  two places.
\<close>

definition map_field :: "pylib \<Rightarrow> dataframe \<Rightarrow> string \<Rightarrow> series \<Rightarrow> dataframe" where
  "map_field L result_df odoo_field source_data =
     (if odoo_field = ''internal_reference''
        then setitem result_df ''Internal Reference'' (clean_text_data L source_data)
      else if odoo_field = ''name''
        then setitem result_df ''Name'' (clean_text_data L source_data)
      else if odoo_field = ''list_price''
        then setitem result_df ''Sale Price'' (clean_float_data L source_data 2)
      else if odoo_field = ''standard_price''
        then setitem result_df ''Cost'' (clean_float_data L source_data 2)
      else if odoo_field = ''qty_available''
        then setitem result_df ''Quantity On Hand'' (clean_float_data L source_data 2)
      else result_df)"

text \<open>
  The loop over \<^verbatim>\<open>column_mapping.items()\<close>, in the dictionary's order. The guard compares
  the index with the number of columns from above only.
\<close>

fun apply_mapping ::
  "pylib \<Rightarrow> dataframe \<Rightarrow> (int \<times> string) list \<Rightarrow> dataframe \<Rightarrow> error + dataframe" where
  "apply_mapping L df [] result_df = Inr result_df"
| "apply_mapping L df ((source_col_idx, odoo_field) # rest) result_df =
     (if source_col_idx < int (length (columns df))
      then and_then (iloc_column df source_col_idx)
             (\<lambda>source_data.
                apply_mapping L df rest (map_field L result_df odoo_field source_data))
      else apply_mapping L df rest result_df)"

text \<open>\<^verbatim>\<open>result_df[name] = result_df[name].fillna(v)\<close>, for one column and for a list of them.\<close>

definition fillna_column :: "dataframe \<Rightarrow> string \<Rightarrow> cell \<Rightarrow> error + dataframe" where
  "fillna_column df name v = and_then (getitem df name) (\<lambda>s. Inr (setitem df name (fillna s v)))"

fun fillna_columns :: "dataframe \<Rightarrow> string list \<Rightarrow> cell \<Rightarrow> error + dataframe" where
  "fillna_columns df [] v = Inr df"
| "fillna_columns df (name # names) v =
     and_then (fillna_column df name v) (\<lambda>df'. fillna_columns df' names v)"

definition init_result :: "nat \<Rightarrow> dataframe" where
  "init_result num_rows =
     (let result_df = new_frame num_rows odoo_columns;
          result_df = setitem_scalar result_df ''Can be Sold'' (Bool True);
          result_df = setitem_scalar result_df ''Can be Purchased'' (Bool True);
          result_df = setitem_scalar result_df ''Product Type'' (Str ''Goods'');
          result_df = setitem_scalar result_df ''Category'' (Str ''All'')
      in result_df)"

definition fill_defaults :: "dataframe \<Rightarrow> error + dataframe" where
  "fill_defaults result_df =
     and_then (fillna_column result_df ''Sale Price'' (Num 0)) (\<lambda>result_df.
     and_then (fillna_column result_df ''Cost'' (Num 0)) (\<lambda>result_df.
     and_then (fillna_column result_df ''Quantity On Hand'' (Num 0)) (\<lambda>result_df.
     fillna_columns result_df
       [''Weight'', ''Volume'', ''Barcode'', ''Description for Quotations'',
        ''Description for Receipts'', ''Customer Taxes'', ''Vendor Taxes''] (Str []))))"

definition transform :: "pylib \<Rightarrow> dataframe \<Rightarrow> (int \<times> string) list \<Rightarrow> error + dataframe" where
  "transform L df column_mapping =
     and_then (apply_mapping L df column_mapping (init_result (nrows df))) (\<lambda>result_df.
     and_then (dropna [''Internal Reference'', ''Name''] result_df) fill_defaults)"


section \<open>The validator\<close>

record validation =
  errors :: "string list"
  warnings :: "string list"
  valid :: bool

definition any :: "bool list \<Rightarrow> bool" where
  "any bs = (True \<in> set bs)"

definition numeric_fields :: "string list" where
  "numeric_fields = [''Sale Price'', ''Cost'', ''Quantity On Hand'']"

fun check_numeric_fields ::
  "dataframe \<Rightarrow> string list \<Rightarrow> string list \<Rightarrow> error + string list" where
  "check_numeric_fields df [] ws = Inr ws"
| "check_numeric_fields df (field # rest) ws =
     (if field \<in> fst ` set (columns df)
      then and_then (getitem df field) (\<lambda>s.
             let ws = ws @
                   (if any (map isna s) then [''Some products have empty '' @ field] else [])
             in and_then (lt_zero s) (\<lambda>negative.
                  check_numeric_fields df rest
                    (ws @
                       (if any negative then [''Some products have negative '' @ field]
                        else []))))
      else check_numeric_fields df rest ws)"

definition validate_transformed_data :: "pylib \<Rightarrow> dataframe \<Rightarrow> error + validation" where
  "validate_transformed_data L df =
     and_then (getitem df ''Internal Reference'') (\<lambda>refs.
       let errs = (if any (map isna refs)
                   then [''Some products are missing Internal Reference''] else [])
       in and_then (getitem df ''Name'') (\<lambda>names.
            let errs = errs @
                  (if any (map isna names) then [''Some products are missing Name''] else []);
                duplicates = duplicated refs;
                ws =
                  (if any duplicates
                   then [''Duplicate Internal References found: '' @
                           repr_list L (boolean_select refs duplicates)]
                   else [])
            in and_then (check_numeric_fields df numeric_fields ws) (\<lambda>ws.
                 Inr \<lparr>errors = errs, warnings = ws, valid = (length errs = 0)\<rparr>)))"

section \<open>Notions used in the statements\<close>

text \<open>
  The columns that the mapping loop can write, and the columns that the final fills
  write.
\<close>

definition mapped_columns :: "string list" where
  "mapped_columns = [''Internal Reference'', ''Name'', ''Sale Price'', ''Cost'', ''Quantity On Hand'']"

definition filled_columns :: "string list" where
  "filled_columns =
     [''Sale Price'', ''Cost'', ''Quantity On Hand'', ''Weight'', ''Volume'', ''Barcode'',
      ''Description for Quotations'', ''Description for Receipts'', ''Customer Taxes'',
      ''Vendor Taxes'']"

text \<open>A frame is well formed when each of its columns has \<open>nrows\<close> cells.\<close>

definition well_formed :: "dataframe \<Rightarrow> bool" where
  "well_formed df = (\<forall>(name, s) \<in> set (columns df). length s = nrows df)"


text \<open>An instance of the library conversions, for the concrete examples.\<close>

definition example_lib :: pylib where
  "example_lib =
     \<lparr>str_of_num = (\<lambda>q. ''0''),
      numeric_of_str = (\<lambda>t. None),
      decimal_of_str = (\<lambda>t. if t = ''2.345'' then Some (2345 / 1000) else None),
      repr_list = (\<lambda>cs. concat (map (\<lambda>c. case c of Str t \<Rightarrow> t | _ \<Rightarrow> ''?'') cs))\<rparr>"

text \<open>
  A source table with a missing code, a padded title and prices that do not parse; a
  mapping with an index past the last column; the table that \<open>transform\<close> makes of
  them; and two tables for the validator with its report on the first.
\<close>

definition example_source :: dataframe where
  "example_source =
     \<lparr>nrows = 2,
      columns = [(''code'', [NaN, Str ''ABC-1'']),
                 (''title'', [Str ''Widget'', Str '' Gadget '']),
                 (''price'', [Str ''n/a'', NaN])]\<rparr>"

definition example_mapping :: "(int \<times> string) list" where
  "example_mapping =
     [(0, ''internal_reference''), (1, ''name''), (2, ''list_price''), (7, ''standard_price'')]"

definition example_result :: dataframe where
  "example_result =
     \<lparr>nrows = 2,
      columns = [(''Internal Reference'', [Str [], Str ''ABC-1'']),
                 (''Name'', [Str ''Widget'', Str ''Gadget'']),
                 (''Can be Sold'', [Bool True, Bool True]),
                 (''Can be Purchased'', [Bool True, Bool True]),
                 (''Product Type'', [Str ''Goods'', Str ''Goods'']),
                 (''Category'', [Str ''All'', Str ''All'']),
                 (''Sale Price'', [Num 0, Num 0]),
                 (''Cost'', [Num 0, Num 0]),
                 (''Quantity On Hand'', [Num 0, Num 0]),
                 (''Weight'', [Str [], Str []]),
                 (''Volume'', [Str [], Str []]),
                 (''Barcode'', [Str [], Str []]),
                 (''Description for Quotations'', [Str [], Str []]),
                 (''Description for Receipts'', [Str [], Str []]),
                 (''Customer Taxes'', [Str [], Str []]),
                 (''Vendor Taxes'', [Str [], Str []])]\<rparr>"

definition example_table :: dataframe where
  "example_table =
     \<lparr>nrows = 2,
      columns = [(''Internal Reference'', [Str ''DUP-1'', Str ''DUP-1'']),
                 (''Name'', [Str ''Widget'', Str ''Gadget'']),
                 (''Quantity On Hand'', [Num (- 5), Num 1])]\<rparr>"

definition example_report :: validation where
  "example_report =
     \<lparr>errors = [],
      warnings = [''Duplicate Internal References found: DUP-1'',
                  ''Some products have negative Quantity On Hand''],
      valid = True\<rparr>"

definition blank_table :: dataframe where
  "blank_table =
     \<lparr>nrows = 2,
      columns = [(''Internal Reference'', [Str [], Str []]),
                 (''Name'', [Str [], Str []]),
                 (''Cost'', [Num 1, NaN])]\<rparr>"

section \<open>Properties of the frame operations\<close>

lemma and_then_Inr_iff:
  "and_then r f = Inr y \<longleftrightarrow> (\<exists>x. r = Inr x \<and> f x = Inr y)"
  by (cases r) (simp_all add: and_then_def)

lemma and_then_Inr [simp]: "and_then (Inr x) f = f x"
  by (simp add: and_then_def)

lemma and_then_Inl [simp]: "and_then (Inl e) f = Inl e"
  by (simp add: and_then_def)

lemma reindex_same: "length s = n \<Longrightarrow> reindex n s = s"
  by (auto simp: reindex_def intro: nth_equalityI)

lemma length_reindex [simp]: "length (reindex n s) = n"
  by (simp add: reindex_def)

lemma getitem_setitem:
  "getitem (setitem df n s) n' = (if n' = n then Inr (reindex (nrows df) s) else getitem df n')"
  by (simp add: getitem_def setitem_def update_conv')

lemma getitem_setitem_scalar:
  "getitem (setitem_scalar df n v) n' =
     (if n' = n then Inr (replicate (nrows df) v) else getitem df n')"
  by (simp add: getitem_def setitem_scalar_def update_conv')

lemma nrows_setitem [simp]: "nrows (setitem df n s) = nrows df"
  by (simp add: setitem_def)

lemma nrows_setitem_scalar [simp]: "nrows (setitem_scalar df n v) = nrows df"
  by (simp add: setitem_scalar_def)

lemma keys_setitem:
  "n \<in> set (map fst (columns df)) \<Longrightarrow> map fst (columns (setitem df n s)) = map fst (columns df)"
  by (simp add: setitem_def update_keys)

lemma keys_setitem_scalar:
  "n \<in> set (map fst (columns df)) \<Longrightarrow>
   map fst (columns (setitem_scalar df n v)) = map fst (columns df)"
  by (simp add: setitem_scalar_def update_keys)

lemma getitem_Inr_iff: "getitem df n = Inr s \<longleftrightarrow> map_of (columns df) n = Some s"
  by (simp add: getitem_def split: option.splits)

lemma getitem_key:
  "n \<in> set (map fst (columns df)) \<Longrightarrow> \<exists>s. getitem df n = Inr s"
  by (cases "map_of (columns df) n") (auto simp: getitem_def map_of_eq_None_iff)

lemma keys_init_result: "map fst (columns (init_result n)) = odoo_columns"
  by (simp add: init_result_def new_frame_def odoo_columns_def setitem_scalar_def)

lemma nrows_init_result [simp]: "nrows (init_result n) = n"
  by (simp add: init_result_def new_frame_def)

lemma getitem_init_result:
  "getitem (init_result n) ''Can be Sold'' = Inr (replicate n (Bool True))"
  "getitem (init_result n) ''Can be Purchased'' = Inr (replicate n (Bool True))"
  "getitem (init_result n) ''Product Type'' = Inr (replicate n (Str ''Goods''))"
  "getitem (init_result n) ''Category'' = Inr (replicate n (Str ''All''))"
  by (simp_all add: init_result_def getitem_setitem_scalar new_frame_def)

lemma keys_map_field:
  "map fst (columns r) = odoo_columns \<Longrightarrow> map fst (columns (map_field L r f src)) = odoo_columns"
  by (simp add: map_field_def keys_setitem odoo_columns_def)

lemma nrows_map_field [simp]: "nrows (map_field L r f src) = nrows r"
  by (simp add: map_field_def)

lemma getitem_map_field:
  "n \<notin> set mapped_columns \<Longrightarrow> getitem (map_field L r f src) n = getitem r n"
  by (auto simp: map_field_def getitem_setitem mapped_columns_def)

lemma apply_mapping_preserves:
  "apply_mapping L df m r = Inr r' \<Longrightarrow> map fst (columns r) = odoo_columns \<Longrightarrow>
   map fst (columns r') = odoo_columns \<and> nrows r' = nrows r \<and>
   (\<forall>n. n \<notin> set mapped_columns \<longrightarrow> getitem r' n = getitem r n)"
proof (induction m arbitrary: r)
  case Nil
  then show ?case by simp
next
  case (Cons p m)
  obtain i f where p: "p = (i, f)" by (cases p)
  show ?case
  proof (cases "i < int (length (columns df))")
    case True
    with Cons.prems(1) p obtain src where
      "apply_mapping L df m (map_field L r f src) = Inr r'"
      by (auto simp: and_then_Inr_iff)
    from Cons.IH [OF this keys_map_field [OF Cons.prems(2)]]
    show ?thesis by (simp add: getitem_map_field)
  next
    case False
    with Cons.prems(1) p have "apply_mapping L df m r = Inr r'" by simp
    from Cons.IH [OF this Cons.prems(2)] show ?thesis .
  qed
qed

lemma iloc_column_ok:
  "- int (length (columns df)) \<le> i \<Longrightarrow> i < int (length (columns df)) \<Longrightarrow>
   \<exists>s. iloc_column df i = Inr s"
  by (auto simp: iloc_column_def Let_def)

lemma apply_mapping_returns:
  "\<forall>(i, f) \<in> set m. - int (length (columns df)) \<le> i \<Longrightarrow>
   \<exists>r'. apply_mapping L df m r = Inr r'"
proof (induction m arbitrary: r)
  case Nil
  then show ?case by simp
next
  case (Cons p m)
  obtain i f where p: "p = (i, f)" by (cases p)
  from Cons.prems p have lo: "- int (length (columns df)) \<le> i"
    and rest: "\<forall>(i, f) \<in> set m. - int (length (columns df)) \<le> i" by auto
  show ?case
  proof (cases "i < int (length (columns df))")
    case True
    from iloc_column_ok [OF lo True] obtain s where "iloc_column df i = Inr s" ..
    with True p Cons.IH [OF rest] show ?thesis by simp
  next
    case False
    with p Cons.IH [OF rest] show ?thesis by simp
  qed
qed


lemma kept_rows_bound: "k \<in> set (kept_rows names df) \<Longrightarrow> k < nrows df"
  by (simp add: kept_rows_def)

lemma dropna_eq:
  "set names \<subseteq> set (map fst (columns df)) \<Longrightarrow>
   dropna names df =
     Inr \<lparr>nrows = length (kept_rows names df),
          columns = map (\<lambda>(name, s). (name, map (\<lambda>k. s ! k) (kept_rows names df))) (columns df)\<rparr>"
  by (simp add: dropna_def Let_def)

lemma select_rows_replicate:
  "\<forall>k \<in> set ks. k < n \<Longrightarrow> map (\<lambda>k. replicate n v ! k) ks = replicate (length ks) v"
  by (induction ks) simp_all

lemma dropna_props:
  assumes ok: "set names \<subseteq> set (map fst (columns df))"
  shows "\<exists>d. dropna names df = Inr d \<and> nrows d = length (kept_rows names df) \<and>
           map fst (columns d) = map fst (columns df) \<and>
           (\<forall>n s. getitem df n = Inr s \<longrightarrow>
                  getitem d n = Inr (map (\<lambda>k. s ! k) (kept_rows names df)))"
proof -
  let ?ks = "kept_rows names df"
  let ?d = "\<lparr>nrows = length ?ks, columns = map (\<lambda>(name, s). (name, map (\<lambda>k. s ! k) ?ks)) (columns df)\<rparr>"
  have "dropna names df = Inr ?d" using ok by (rule dropna_eq)
  moreover have "map fst (columns ?d) = map fst (columns df)"
    by (simp add: case_prod_unfold comp_def)
  moreover have "getitem ?d n = Inr (map (\<lambda>k. s ! k) ?ks)" if "getitem df n = Inr s" for n s
    using that by (simp add: getitem_Inr_iff map_of_map)
  ultimately show ?thesis by auto
qed

lemma fillna_column_props:
  assumes "n \<in> set (map fst (columns df))"
  shows "\<exists>df' s. fillna_column df n v = Inr df' \<and> nrows df' = nrows df \<and>
           map fst (columns df') = map fst (columns df) \<and>
           (\<forall>n'. n' \<noteq> n \<longrightarrow> getitem df' n' = getitem df n') \<and>
           getitem df n = Inr s \<and> getitem df' n = Inr (reindex (nrows df) (fillna s v))"
proof -
  from getitem_key [OF assms] obtain s where s: "getitem df n = Inr s" ..
  then have "fillna_column df n v = Inr (setitem df n (fillna s v))"
    by (simp add: fillna_column_def)
  with s assms show ?thesis
    by (auto simp: getitem_setitem keys_setitem)
qed

lemma fillna_columns_props:
  "set ns \<subseteq> set (map fst (columns df)) \<Longrightarrow>
   \<exists>df'. fillna_columns df ns v = Inr df' \<and> nrows df' = nrows df \<and>
     map fst (columns df') = map fst (columns df) \<and>
     (\<forall>n'. n' \<notin> set ns \<longrightarrow> getitem df' n' = getitem df n')"
proof (induction ns arbitrary: df)
  case Nil
  then show ?case by simp
next
  case (Cons n ns)
  then have n: "n \<in> set (map fst (columns df))" by simp
  from fillna_column_props [OF n, of v] obtain df1 where
    1: "fillna_column df n v = Inr df1" "nrows df1 = nrows df"
       "map fst (columns df1) = map fst (columns df)"
       "\<forall>n'. n' \<noteq> n \<longrightarrow> getitem df1 n' = getitem df n'"
    by blast
  from Cons.prems 1(3) have "set ns \<subseteq> set (map fst (columns df1))" by simp
  from Cons.IH [OF this] obtain df2 where
    2: "fillna_columns df1 ns v = Inr df2" "nrows df2 = nrows df1"
       "map fst (columns df2) = map fst (columns df1)"
       "\<forall>n'. n' \<notin> set ns \<longrightarrow> getitem df2 n' = getitem df1 n'"
    by blast
  from 1 2 show ?case by auto
qed

lemma fill_defaults_props:
  assumes keys: "map fst (columns d) = odoo_columns"
  shows "\<exists>out. fill_defaults d = Inr out \<and> nrows out = nrows d \<and>
           map fst (columns out) = odoo_columns \<and>
           (\<forall>n. n \<notin> set filled_columns \<longrightarrow> getitem out n = getitem d n) \<and>
           (\<forall>n \<in> set numeric_fields. \<exists>s. getitem d n = Inr s \<and>
                getitem out n = Inr (reindex (nrows d) (fillna s (Num 0))))"
proof -
  have "''Sale Price'' \<in> set (map fst (columns d))"
    by (simp add: keys odoo_columns_def)
  from fillna_column_props [OF this, of "Num 0"] obtain d1 s1 where
    1: "fillna_column d ''Sale Price'' (Num 0) = Inr d1" "nrows d1 = nrows d"
       "map fst (columns d1) = map fst (columns d)"
       "\<forall>n'. n' \<noteq> ''Sale Price'' \<longrightarrow> getitem d1 n' = getitem d n'"
       "getitem d ''Sale Price'' = Inr s1"
       "getitem d1 ''Sale Price'' = Inr (reindex (nrows d) (fillna s1 (Num 0)))"
    by blast
  have "''Cost'' \<in> set (map fst (columns d1))"
    by (simp add: 1(3) keys odoo_columns_def)
  from fillna_column_props [OF this, of "Num 0"] obtain d2 s2 where
    2: "fillna_column d1 ''Cost'' (Num 0) = Inr d2" "nrows d2 = nrows d1"
       "map fst (columns d2) = map fst (columns d1)"
       "\<forall>n'. n' \<noteq> ''Cost'' \<longrightarrow> getitem d2 n' = getitem d1 n'"
       "getitem d1 ''Cost'' = Inr s2"
       "getitem d2 ''Cost'' = Inr (reindex (nrows d1) (fillna s2 (Num 0)))"
    by blast
  have "''Quantity On Hand'' \<in> set (map fst (columns d2))"
    by (simp add: 1(3) 2(3) keys odoo_columns_def)
  from fillna_column_props [OF this, of "Num 0"] obtain d3 s3 where
    3: "fillna_column d2 ''Quantity On Hand'' (Num 0) = Inr d3" "nrows d3 = nrows d2"
       "map fst (columns d3) = map fst (columns d2)"
       "\<forall>n'. n' \<noteq> ''Quantity On Hand'' \<longrightarrow> getitem d3 n' = getitem d2 n'"
       "getitem d2 ''Quantity On Hand'' = Inr s3"
       "getitem d3 ''Quantity On Hand'' = Inr (reindex (nrows d2) (fillna s3 (Num 0)))"
    by blast
  let ?ns = "[''Weight'', ''Volume'', ''Barcode'', ''Description for Quotations'',
        ''Description for Receipts'', ''Customer Taxes'', ''Vendor Taxes'']"
  have "set ?ns \<subseteq> set (map fst (columns d3))"
    by (simp add: 1(3) 2(3) 3(3) keys odoo_columns_def)
  from fillna_columns_props [OF this, of "Str []"] obtain out where
    4: "fillna_columns d3 ?ns (Str []) = Inr out" "nrows out = nrows d3"
       "map fst (columns out) = map fst (columns d3)"
       "\<forall>n'. n' \<notin> set ?ns \<longrightarrow> getitem out n' = getitem d3 n'"
    by blast
  have run: "fill_defaults d = Inr out"
    by (simp only: fill_defaults_def 1(1) 2(1) 3(1) 4(1) and_then_Inr)
  have rows: "nrows out = nrows d" by (simp add: 1(2) 2(2) 3(2) 4(2))
  have cols: "map fst (columns out) = odoo_columns" by (simp add: 1(3) 2(3) 3(3) 4(3) keys)
  have other: "getitem out n = getitem d n" if "n \<notin> set filled_columns" for n
    using that 1(4) 2(4) 3(4) 4(4) by (simp add: filled_columns_def)
  have sp: "getitem out ''Sale Price'' = Inr (reindex (nrows d) (fillna s1 (Num 0)))"
    using 1(6) 2(4) 3(4) 4(4) by simp
  have co: "getitem out ''Cost'' = Inr (reindex (nrows d) (fillna s2 (Num 0)))"
    and co': "getitem d ''Cost'' = Inr s2"
    using 1(2,4) 2(5,6) 3(4) 4(4) by simp_all
  have qt: "getitem out ''Quantity On Hand'' = Inr (reindex (nrows d) (fillna s3 (Num 0)))"
    and qt': "getitem d ''Quantity On Hand'' = Inr s3"
    using 1(2,4) 2(2,4) 3(5,6) 4(4) by simp_all
  from run rows cols other sp 1(5) co co' qt qt' show ?thesis
    by (auto simp: numeric_fields_def)
qed

section \<open>Numbers and text\<close>

lemma floor_rat_numeral [simp]:
  "\<lfloor>numeral a / numeral b :: rat\<rfloor> = numeral a div numeral b"
  by (metis floor_divide_of_int_eq of_int_numeral)

lemma floor_rat_minus_numeral [simp]:
  "\<lfloor>- (numeral a / numeral b) :: rat\<rfloor> = - numeral a div numeral b"
  by (metis divide_minus_left floor_divide_of_int_eq of_int_neg_numeral of_int_numeral)

lemma ceiling_rat_numeral [simp]:
  "\<lceil>numeral a / numeral b :: rat\<rceil> = - (- numeral a div numeral b)"
  using ceiling_divide_eq_div[of "numeral a" "numeral b", where ?'a = rat] by simp

lemmas fl_eval = fl_def ilog2_def pow2_def rint_def compute_floorlog Let_def

lemma fl_eighth_scaled: "fl (25 / 2) = 25 / 2"
  by (simp add: fl_eval)

lemma fl_hundred: "fl 100 = 100"
  by (simp add: fl_eval)

lemma fl_twelve_hundredths: "fl (3 / 25) = 1080863910568919 / 9007199254740992"
  by (simp add: fl_eval)

lemma fl_thirteen_hundredths: "fl (13 / 100) = 1170935903116329 / 9007199254740992"
  by (simp add: fl_eval)

lemma fl_rounded_example: "fl (47 / 20) = 5291729562160333 / 2251799813685248"
  by (simp add: fl_eval)

text \<open>
  The decimal 2.345 is no binary64 value; the nearest one lies above it, and its
  hundredfold rounds to a binary64 value above 234.5. So \<^verbatim>\<open>Series.round\<close> takes the
  cell 2.345 to 2.35, and \<open>-2.345\<close> to \<open>-2.35\<close>, without meeting a tie.
\<close>

lemma ilog2_claim_value: "ilog2 (469 / 200) = 1"
  by (simp add: ilog2_def compute_floorlog)

lemma fl_claim_value: "fl (469 / 200) = 5280470563091907 / 2251799813685248"
  by (simp add: fl_def ilog2_claim_value pow2_def rint_def Let_def)

lemma ilog2_claim_scaled: "ilog2 (132011764077297675 / 562949953421312) = 7"
  by (simp add: ilog2_def compute_floorlog)

lemma fl_claim_scaled:
  "fl (132011764077297675 / 562949953421312) = 8250735254831105 / 35184372088832"
  by (simp add: fl_def ilog2_claim_scaled pow2_def rint_def Let_def)

lemma rint_claim_scaled: "rint (8250735254831105 / 35184372088832) = 235"
  by (simp add: rint_def Let_def)

lemma np_round_claim_pos: "np_round 2 (fl (2345 / 1000)) = fl (235 / 100)"
  by (simp add: np_round_def fl_hundred fl_claim_value fl_claim_scaled rint_claim_scaled)

lemma fl_claim_scaled_neg:
  "fl (- (132011764077297675 / 562949953421312)) = - (8250735254831105 / 35184372088832)"
  by (simp add: fl_def ilog2_claim_scaled pow2_def rint_def Let_def)

lemma rint_claim_scaled_neg: "rint (- (8250735254831105 / 35184372088832)) = - 235"
  by (simp add: rint_def Let_def)

lemma ilog2_rounded_example: "ilog2 (47 / 20) = 1"
  by (simp add: ilog2_def compute_floorlog)

lemma fl_rounded_example_neg: "fl (- (47 / 20)) = - (5291729562160333 / 2251799813685248)"
  by (simp add: fl_def ilog2_rounded_example pow2_def rint_def Let_def)

lemma np_round_claim_examples:
  "np_round 2 (fl (2345 / 1000)) = fl (235 / 100) \<and>
   np_round 2 (- fl (2345 / 1000)) = fl (- 235 / 100)"
  by (simp add: np_round_def fl_hundred fl_claim_value fl_claim_scaled rint_claim_scaled
      fl_claim_scaled_neg rint_claim_scaled_neg fl_rounded_example fl_rounded_example_neg)

lemma np_round_eighth: "np_round 2 (1 / 8) = fl (3 / 25)"
  by (simp add: np_round_def fl_hundred fl_eighth_scaled rint_def)



text \<open>
  Claim C2. Numeric-clean rounds with \<^verbatim>\<open>Series.round\<close>, which sends a tie to the even
  neighbour. The value 0.125 has an exact binary64 form, and so has its hundredfold
  12.5; numeric-clean takes it to the binary64 value of 0.12, which is not the
  binary64 value of 0.13 that rounding half up gives (and that the \<^verbatim>\<open>ROUND_HALF_UP\<close>
  quantization of \<^verbatim>\<open>_format_currency\<close> computes for the same value).
\<close>

theorem clean_float_data_ties_to_even:
  "clean_float_data L [Num (1 / 8)] 2 = [Num (fl (3 / 25))] \<and>
   fl (3 / 25) \<noteq> fl (13 / 100) \<and>
   quantize 2 (1 / 8) = Some (13 / 100)"
proof -
  have "clean_float_data L [Num (1 / 8)] 2 = [Num (fl (3 / 25))]"
    by (simp add: clean_float_data_def to_numeric_def series_round_def np_round_eighth)
  moreover have "fl (3 / 25) \<noteq> fl (13 / 100)"
    by (simp add: fl_twelve_hundredths fl_thirteen_hundredths)
  moreover have "quantize 2 (1 / 8) = Some (13 / 100)"
    by (simp add: quantize_def round_half_up_def)
  ultimately show ?thesis by blast
qed





text \<open>
  Claim C4. Whenever the validator returns, its \<open>valid\<close> flag is true exactly when its
  list of errors is empty, whatever the warnings are.
\<close>

theorem validate_valid_iff_no_errors:
  "validate_transformed_data L df = Inr r \<Longrightarrow> valid r = (errors r = [])"
  by (auto simp: validate_transformed_data_def and_then_Inr_iff Let_def)

section \<open>The validator and the transformer\<close>

lemma lt_zero_returns:
  "\<forall>c \<in> set s. \<forall>t. c \<noteq> Str t \<Longrightarrow> \<exists>bs. lt_zero s = Inr bs"
proof (induction s)
  case Nil
  then show ?case by simp
next
  case (Cons c s)
  then obtain bs where "lt_zero s = Inr bs" by auto
  moreover from Cons.prems obtain b where "lt_zero_cell c = Inr b"
    by (cases c) auto
  ultimately show ?case by simp
qed

lemma check_numeric_fields_returns:
  "\<forall>f \<in> set fs. \<forall>s. getitem df f = Inr s \<longrightarrow> (\<forall>c \<in> set s. \<forall>t. c \<noteq> Str t) \<Longrightarrow>
   \<exists>ws'. check_numeric_fields df fs ws = Inr ws'"
proof (induction fs arbitrary: ws)
  case Nil
  then show ?case by simp
next
  case (Cons f fs)
  then have rest: "\<forall>f \<in> set fs. \<forall>s. getitem df f = Inr s \<longrightarrow> (\<forall>c \<in> set s. \<forall>t. c \<noteq> Str t)"
    by simp
  show ?case
  proof (cases "f \<in> fst ` set (columns df)")
    case True
    then have "f \<in> set (map fst (columns df))" by simp
    from getitem_key [OF this] obtain s where s: "getitem df f = Inr s" ..
    with Cons.prems have "\<forall>c \<in> set s. \<forall>t. c \<noteq> Str t" by simp
    from lt_zero_returns [OF this] obtain bs where bs: "lt_zero s = Inr bs" ..
    from True s bs Cons.IH [OF rest] show ?thesis by (simp add: Let_def)
  next
    case False
    with Cons.IH [OF rest] show ?thesis by simp
  qed
qed

lemma check_numeric_fields_appends:
  "check_numeric_fields df fs ws = Inr ws' \<Longrightarrow>
   \<exists>extra. ws' = ws @ extra \<and> (\<forall>w \<in> set extra. prefix ''Some products have '' w)"
proof (induction fs arbitrary: ws)
  case Nil
  then show ?case by simp
next
  case (Cons f fs)
  show ?case
  proof (cases "f \<in> fst ` set (columns df)")
    case True
    with Cons.prems obtain s neg where
      run: "check_numeric_fields df fs
              ((ws @ (if any (map isna s) then [''Some products have empty '' @ f] else [])) @
               (if any neg then [''Some products have negative '' @ f] else [])) = Inr ws'"
      by (auto simp: and_then_Inr_iff Let_def)
    from Cons.IH [OF run] obtain extra where
      "ws' = ((ws @ (if any (map isna s) then [''Some products have empty '' @ f] else [])) @
               (if any neg then [''Some products have negative '' @ f] else [])) @ extra"
      "\<forall>w \<in> set extra. prefix ''Some products have '' w"
      by blast
    then show ?thesis by (auto split: if_splits)
  next
    case False
    with Cons.prems have "check_numeric_fields df fs ws = Inr ws'" by simp
    from Cons.IH [OF this] show ?thesis .
  qed
qed

lemma any_map_isna: "any (map isna s) \<longleftrightarrow> NaN \<in> set s"
proof -
  have "isna c \<longleftrightarrow> c = NaN" for c by (cases c) (simp_all add: isna_def)
  then show ?thesis by (auto simp: any_def)
qed

lemma boolean_select_Cons:
  "boolean_select (c # cs) (b # bs) = (if b then [c] else []) @ boolean_select cs bs"
  by (simp add: boolean_select_def)

lemma length_duplicated_from [simp]: "length (duplicated_from seen cs) = length cs"
  by (induction cs arbitrary: seen) simp_all

lemma nth_duplicated_from:
  "k < length cs \<Longrightarrow>
   duplicated_from seen cs ! k = (cs ! k \<in> set seen \<union> set (take k cs))"
proof (induction cs arbitrary: seen k)
  case Nil
  then show ?case by simp
next
  case (Cons c cs)
  show ?case
  proof (cases k)
    case 0
    then show ?thesis by simp
  next
    case (Suc j)
    with Cons.prems have "j < length cs" by simp
    from Cons.IH [OF this, of "c # seen"] Suc show ?thesis by auto
  qed
qed

lemma select_duplicated_from:
  "boolean_select cs (duplicated_from seen cs) =
     map (\<lambda>k. cs ! k) (filter (\<lambda>k. cs ! k \<in> set seen \<union> set (take k cs)) [0..<length cs])"
proof (induction cs arbitrary: seen)
  case Nil
  then show ?case by (simp add: boolean_select_def)
next
  case (Cons c cs)
  have upt: "[0..<length (c # cs)] = 0 # map Suc [0..<length cs]"
    by (simp add: upt_conv_Cons map_Suc_upt del: upt_Suc)
  have tl: "map (\<lambda>k. (c # cs) ! k)
              (filter (\<lambda>k. (c # cs) ! k \<in> set seen \<union> set (take k (c # cs)))
                 (map Suc [0..<length cs])) =
            map (\<lambda>k. cs ! k)
              (filter (\<lambda>k. cs ! k \<in> set (c # seen) \<union> set (take k cs)) [0..<length cs])"
    by (simp add: filter_map comp_def disj_ac)
  show ?case
    unfolding duplicated_from.simps boolean_select_Cons Cons.IH upt
    using tl by simp
qed

lemma any_duplicated_from:
  "any (duplicated_from seen cs) \<longleftrightarrow> \<not> (distinct cs \<and> set cs \<inter> set seen = {})"
  by (induction cs arbitrary: seen) (auto simp: any_def)

text \<open>
  Claim C9. \<^verbatim>\<open>duplicated\<close> marks exactly the cells whose value stands at an earlier row, so
  the first occurrence of a value is never marked and every later one is. When some
  Internal Reference is repeated the validator emits one duplicate warning, which
  lists the marked values in row order; when none is repeated it emits none.
\<close>

theorem validate_duplicate_warning:
  assumes "validate_transformed_data L df = Inr r"
    and "getitem df ''Internal Reference'' = Inr refs"
  shows "length (duplicated refs) = length refs \<and>
         (\<forall>k < length refs. duplicated refs ! k = (refs ! k \<in> set (take k refs))) \<and>
         filter (prefix ''Duplicate Internal References found: '') (warnings r) =
           (if distinct refs then []
            else [''Duplicate Internal References found: '' @
                  repr_list L (map (\<lambda>k. refs ! k)
                    (filter (\<lambda>k. refs ! k \<in> set (take k refs)) [0..<length refs]))])"
proof -
  let ?msg = "''Duplicate Internal References found: '' @
                repr_list L (boolean_select refs (duplicated refs))"
  let ?ws = "if any (duplicated refs) then [?msg] else []"
  from assms obtain ws' where
    run: "check_numeric_fields df numeric_fields ?ws = Inr ws'" and r: "warnings r = ws'"
    by (auto simp: validate_transformed_data_def and_then_Inr_iff Let_def)
  from check_numeric_fields_appends [OF run] obtain extra where
    ws': "ws' = ?ws @ extra" and extra: "\<forall>w \<in> set extra. prefix ''Some products have '' w"
    by blast
  have "\<not> prefix ''Duplicate Internal References found: '' w" if "w \<in> set extra" for w
  proof -
    from extra that obtain z where "w = ''Some products have '' @ z"
      by (auto simp: prefix_def)
    then show ?thesis by simp
  qed
  then have none: "filter (prefix ''Duplicate Internal References found: '') extra = []"
    by (simp add: filter_empty_conv)
  have sel: "boolean_select refs (duplicated refs) =
      map (\<lambda>k. refs ! k) (filter (\<lambda>k. refs ! k \<in> set (take k refs)) [0..<length refs])"
    using select_duplicated_from [of refs "[]"] by (simp add: duplicated_def)
  have dist: "any (duplicated refs) \<longleftrightarrow> \<not> distinct refs"
    by (simp add: duplicated_def any_duplicated_from)
  have "filter (prefix ''Duplicate Internal References found: '') (warnings r) =
          (if distinct refs then [] else [?msg])"
    unfolding r ws' by (simp add: none dist)
  moreover have "length (duplicated refs) = length refs"
    by (simp add: duplicated_def)
  moreover have "\<forall>k < length refs. duplicated refs ! k = (refs ! k \<in> set (take k refs))"
    by (simp add: duplicated_def nth_duplicated_from)
  ultimately show ?thesis by (simp add: sel)
qed

text \<open>
  Claim C5. When every Internal Reference and every Name is the empty string (and the
  numeric columns hold no string, so that the comparisons with zero do not raise), the
  validator returns with no error and \<open>valid\<close> true: the checks of the required fields
  see missing cells only.
\<close>

theorem validate_accepts_empty_strings:
  assumes "getitem df ''Internal Reference'' = Inr refs" and "set refs \<subseteq> {Str []}"
    and "getitem df ''Name'' = Inr names" and "set names \<subseteq> {Str []}"
    and "\<forall>f \<in> set numeric_fields. \<forall>s. getitem df f = Inr s \<longrightarrow> (\<forall>c \<in> set s. \<forall>t. c \<noteq> Str t)"
  shows "\<exists>r. validate_transformed_data L df = Inr r \<and> errors r = [] \<and> valid r"
proof -
  from assms(2) have "NaN \<notin> set refs" by auto
  then have refs: "\<not> any (map isna refs)" by (simp add: any_map_isna)
  from assms(4) have "NaN \<notin> set names" by auto
  then have names: "\<not> any (map isna names)" by (simp add: any_map_isna)
  let ?ws = "if any (duplicated refs)
             then [''Duplicate Internal References found: '' @
                     repr_list L (boolean_select refs (duplicated refs))]
             else []"
  from check_numeric_fields_returns [OF assms(5), of ?ws] obtain ws' where
    "check_numeric_fields df numeric_fields ?ws = Inr ws'" ..
  with assms(1,3) refs names show ?thesis
    by (simp add: validate_transformed_data_def Let_def)
qed

lemmas frame_eval = transform_def init_result_def new_frame_def odoo_columns_def
  setitem_scalar_def setitem_def map_field_def clean_text_data_def clean_float_data_def
  astype_str_def str_strip_def replace_value_def to_numeric_def series_round_def
  iloc_column_def dropna_def kept_rows_def fill_defaults_def fillna_column_def getitem_def
  fillna_def isna_def reindex_def strip_def is_space_def Let_def

lemmas validate_eval = validate_transformed_data_def getitem_def any_def isna_def
  duplicated_def boolean_select_def numeric_fields_def Let_def

lemma transform_example:
  "transform example_lib example_source example_mapping = Inr example_result"
  by (simp add: example_source_def example_mapping_def example_result_def example_lib_def
      frame_eval upt_rec)

lemma validate_example:
  "validate_transformed_data example_lib example_table = Inr example_report"
  by (simp add: example_table_def example_report_def example_lib_def validate_eval)

lemma transform_stages:
  assumes "transform L df m = Inr out"
  shows "\<exists>r d. apply_mapping L df m (init_result (nrows df)) = Inr r \<and>
           dropna [''Internal Reference'', ''Name''] r = Inr d \<and> fill_defaults d = Inr out"
  using assms by (auto simp: transform_def and_then_Inr_iff)

lemma transform_constant_column:
  assumes run: "transform L df m = Inr out"
    and init: "getitem (init_result (nrows df)) n = Inr (replicate (nrows df) v)"
    and n: "n \<notin> set mapped_columns" "n \<notin> set filled_columns"
  shows "getitem out n = Inr (replicate (nrows out) v)"
proof -
  from transform_stages [OF run] obtain r d where
    r: "apply_mapping L df m (init_result (nrows df)) = Inr r"
    and d: "dropna [''Internal Reference'', ''Name''] r = Inr d"
    and out: "fill_defaults d = Inr out"
    by blast
  from apply_mapping_preserves [OF r keys_init_result] n(1) init
  have keys_r: "map fst (columns r) = odoo_columns" and rows_r: "nrows r = nrows df"
    and col_r: "getitem r n = Inr (replicate (nrows df) v)"
    by simp_all
  let ?ks = "kept_rows [''Internal Reference'', ''Name''] r"
  have "set [''Internal Reference'', ''Name''] \<subseteq> set (map fst (columns r))"
    by (simp add: keys_r odoo_columns_def)
  from dropna_props [OF this] d col_r
  have rows_d: "nrows d = length ?ks" and keys_d: "map fst (columns d) = odoo_columns"
    and col_d: "getitem d n = Inr (map (\<lambda>k. replicate (nrows df) v ! k) ?ks)"
    by (auto simp: keys_r)
  have "\<forall>k \<in> set ?ks. k < nrows df"
    using kept_rows_bound [of _ "[''Internal Reference'', ''Name'']" r] by (simp add: rows_r)
  from select_rows_replicate [OF this] col_d rows_d
  have col_d': "getitem d n = Inr (replicate (nrows d) v)" by simp
  from fill_defaults_props [OF keys_d] out n(2) col_d' show ?thesis by auto
qed

text \<open>
  The frames that \<open>transform\<close> goes through are well formed, so every read of a cell
  by its row is in range, and the result has the sixteen columns in their order.
\<close>

lemma set_alist_update: "set (AList.update k v al) \<subseteq> insert (k, v) (set al)"
  by (induction al) auto

lemma well_formed_update:
  "well_formed df \<Longrightarrow> length s = nrows df \<Longrightarrow>
   well_formed (df\<lparr>columns := AList.update n s (columns df)\<rparr>)"
  using set_alist_update [of n s "columns df"]
  by (auto simp: well_formed_def)

lemma well_formed_setitem: "well_formed df \<Longrightarrow> well_formed (setitem df n s)"
  unfolding setitem_def by (rule well_formed_update) simp_all

lemma well_formed_setitem_scalar: "well_formed df \<Longrightarrow> well_formed (setitem_scalar df n v)"
  unfolding setitem_scalar_def by (rule well_formed_update) simp_all

lemma well_formed_init_result: "well_formed (init_result n)"
proof -
  have "well_formed (new_frame n odoo_columns)"
    by (auto simp: well_formed_def new_frame_def)
  then show ?thesis
    by (simp add: init_result_def well_formed_setitem_scalar)
qed

lemma well_formed_map_field: "well_formed r \<Longrightarrow> well_formed (map_field L r f src)"
  by (simp add: map_field_def well_formed_setitem)

lemma well_formed_apply_mapping:
  "apply_mapping L df m r = Inr r' \<Longrightarrow> well_formed r \<Longrightarrow> well_formed r'"
proof (induction m arbitrary: r)
  case Nil
  then show ?case by simp
next
  case (Cons p m)
  obtain i f where p: "p = (i, f)" by (cases p)
  show ?case
  proof (cases "i < int (length (columns df))")
    case True
    with Cons.prems(1) p obtain src where
      "apply_mapping L df m (map_field L r f src) = Inr r'"
      by (auto simp: and_then_Inr_iff)
    from Cons.IH [OF this well_formed_map_field [OF Cons.prems(2)]] show ?thesis .
  next
    case False
    with Cons.prems(1) p have "apply_mapping L df m r = Inr r'" by simp
    from Cons.IH [OF this Cons.prems(2)] show ?thesis .
  qed
qed

lemma well_formed_dropna: "dropna names df = Inr d \<Longrightarrow> well_formed d"
  by (auto simp: dropna_def well_formed_def Let_def split: if_splits)

lemma well_formed_fillna_column:
  "fillna_column df n v = Inr df' \<Longrightarrow> well_formed df \<Longrightarrow> well_formed df'"
  by (auto simp: fillna_column_def and_then_Inr_iff well_formed_setitem)

lemma well_formed_fillna_columns:
  "fillna_columns df ns v = Inr df' \<Longrightarrow> well_formed df \<Longrightarrow> well_formed df'"
proof (induction ns arbitrary: df)
  case Nil
  then show ?case by simp
next
  case (Cons n ns)
  from Cons.prems(1) obtain df1 where
    1: "fillna_column df n v = Inr df1" and 2: "fillna_columns df1 ns v = Inr df'"
    by (auto simp: and_then_Inr_iff)
  from Cons.IH [OF 2 well_formed_fillna_column [OF 1 Cons.prems(2)]] show ?case .
qed

lemma well_formed_fill_defaults:
  assumes "fill_defaults d = Inr out" and "well_formed d"
  shows "well_formed out"
proof -
  from assms(1) obtain d1 d2 d3 where
    "fillna_column d ''Sale Price'' (Num 0) = Inr d1"
    "fillna_column d1 ''Cost'' (Num 0) = Inr d2"
    "fillna_column d2 ''Quantity On Hand'' (Num 0) = Inr d3"
    "fillna_columns d3
       [''Weight'', ''Volume'', ''Barcode'', ''Description for Quotations'',
        ''Description for Receipts'', ''Customer Taxes'', ''Vendor Taxes''] (Str []) = Inr out"
    unfolding fill_defaults_def and_then_Inr_iff by blast
  with assms(2) show ?thesis
    by (blast intro: well_formed_fillna_column well_formed_fillna_columns)
qed

lemma transform_well_formed:
  assumes "transform L df m = Inr out"
  shows "well_formed out \<and> map fst (columns out) = odoo_columns"
proof -
  from transform_stages [OF assms] obtain r d where
    r: "apply_mapping L df m (init_result (nrows df)) = Inr r"
    and d: "dropna [''Internal Reference'', ''Name''] r = Inr d"
    and out: "fill_defaults d = Inr out"
    by blast
  from apply_mapping_preserves [OF r keys_init_result]
  have keys_r: "map fst (columns r) = odoo_columns" by simp
  have "set [''Internal Reference'', ''Name''] \<subseteq> set (map fst (columns r))"
    by (simp add: keys_r odoo_columns_def)
  from dropna_props [OF this] d have keys_d: "map fst (columns d) = odoo_columns"
    by (auto simp: keys_r)
  from fill_defaults_props [OF keys_d] out have "map fst (columns out) = odoo_columns"
    by auto
  moreover from well_formed_fill_defaults [OF out well_formed_dropna [OF d]]
  have "well_formed out" .
  ultimately show ?thesis by blast
qed

text \<open>
  Claim C7. In every table that \<open>transform\<close> returns, the columns Can be Sold and Can
  be Purchased are true in every row, Product Type is \<^verbatim>\<open>Goods\<close> and Category is \<^verbatim>\<open>All\<close>.
\<close>

theorem transform_fixed_columns:
  assumes "transform L df m = Inr out"
  shows "getitem out ''Can be Sold'' = Inr (replicate (nrows out) (Bool True)) \<and>
         getitem out ''Can be Purchased'' = Inr (replicate (nrows out) (Bool True)) \<and>
         getitem out ''Product Type'' = Inr (replicate (nrows out) (Str ''Goods'')) \<and>
         getitem out ''Category'' = Inr (replicate (nrows out) (Str ''All''))"
proof -
  have "getitem out ''Can be Sold'' = Inr (replicate (nrows out) (Bool True))"
    by (rule transform_constant_column [OF assms getitem_init_result(1)])
      (simp_all add: mapped_columns_def filled_columns_def)
  moreover have "getitem out ''Can be Purchased'' = Inr (replicate (nrows out) (Bool True))"
    by (rule transform_constant_column [OF assms getitem_init_result(2)])
      (simp_all add: mapped_columns_def filled_columns_def)
  moreover have "getitem out ''Product Type'' = Inr (replicate (nrows out) (Str ''Goods''))"
    by (rule transform_constant_column [OF assms getitem_init_result(3)])
      (simp_all add: mapped_columns_def filled_columns_def)
  moreover have "getitem out ''Category'' = Inr (replicate (nrows out) (Str ''All''))"
    by (rule transform_constant_column [OF assms getitem_init_result(4)])
      (simp_all add: mapped_columns_def filled_columns_def)
  ultimately show ?thesis by blast
qed

theorem transform_fixed_columns_witness:
  "transform example_lib example_source example_mapping = Inr example_result \<and>
   getitem example_result ''Can be Sold'' = Inr (replicate (nrows example_result) (Bool True)) \<and>
   getitem example_result ''Can be Purchased'' =
     Inr (replicate (nrows example_result) (Bool True)) \<and>
   getitem example_result ''Product Type'' =
     Inr (replicate (nrows example_result) (Str ''Goods'')) \<and>
   getitem example_result ''Category'' = Inr (replicate (nrows example_result) (Str ''All''))"
  using transform_example transform_fixed_columns [OF transform_example] by (rule conjI)

lemma clean_float_data_nth:
  "k < length s \<Longrightarrow>
   clean_float_data L s dp ! k =
     (case to_numeric_cell L (s ! k) of Num q \<Rightarrow> Num (np_round dp q) | c \<Rightarrow> c)"
  by (simp add: clean_float_data_def to_numeric_def series_round_def split: cell.splits)

lemma fillna_props:
  "length (fillna s v) = length s"
  "k < length s \<Longrightarrow> fillna s v ! k = (if s ! k = NaN then v else s ! k)"
  "v \<noteq> NaN \<Longrightarrow> NaN \<notin> set (fillna s v)"
  by (auto simp: fillna_def isna_def split: cell.splits)

lemma apply_mapping_skips:
  "apply_mapping L df m r =
     apply_mapping L df (filter (\<lambda>(i, f). i < int (length (columns df))) m) r"
  by (induction m arbitrary: r) (auto simp: and_then_def split: sum.splits)

lemma transform_skips:
  "transform L df m = transform L df (filter (\<lambda>(i, f). i < int (length (columns df))) m)"
  unfolding transform_def by (subst apply_mapping_skips) (rule refl)

text \<open>
  Claim C6. Numeric-clean turns a cell that does not parse into a missing cell and does
  not fail. Whether \<open>transform\<close> returns depends on the indices of the mapping only,
  never on a cell: with every index at least minus the number of source columns it
  returns, whatever the cells are. In the table it returns, Sale Price, Cost and
  Quantity On Hand are the columns left by the required-field filter with every missing
  cell replaced by 0, so none of their cells is missing.
\<close>

theorem transform_numeric_cells:
  "(\<forall>k t. k < length s \<and> s ! k = Str t \<and> numeric_of_str L t = None \<longrightarrow>
      clean_float_data L s dp ! k = NaN) \<and>
   ((\<forall>(i, f) \<in> set m. - int (length (columns df)) \<le> i) \<longrightarrow>
    (\<exists>r d out.
       apply_mapping L df m (init_result (nrows df)) = Inr r \<and>
       dropna [''Internal Reference'', ''Name''] r = Inr d \<and>
       transform L df m = Inr out \<and>
       nrows out = nrows d \<and>
       (\<forall>n \<in> set numeric_fields.
          \<exists>s. getitem d n = Inr s \<and> length s = nrows out \<and>
              getitem out n = Inr (fillna s (Num 0)) \<and>
              NaN \<notin> set (fillna s (Num 0)) \<and>
              (\<forall>k < nrows out.
                 fillna s (Num 0) ! k = (if s ! k = NaN then Num 0 else s ! k)))))"
proof (intro conjI impI)
  show "\<forall>k t. k < length s \<and> s ! k = Str t \<and> numeric_of_str L t = None \<longrightarrow>
          clean_float_data L s dp ! k = NaN"
    by (simp add: clean_float_data_nth)
next
  assume idx: "\<forall>(i, f) \<in> set m. - int (length (columns df)) \<le> i"
  from apply_mapping_returns [OF idx] obtain r where
    r: "apply_mapping L df m (init_result (nrows df)) = Inr r" ..
  from apply_mapping_preserves [OF r keys_init_result]
  have keys_r: "map fst (columns r) = odoo_columns" by simp
  let ?ks = "kept_rows [''Internal Reference'', ''Name''] r"
  have "set [''Internal Reference'', ''Name''] \<subseteq> set (map fst (columns r))"
    by (simp add: keys_r odoo_columns_def)
  from dropna_props [OF this] obtain d where
    d: "dropna [''Internal Reference'', ''Name''] r = Inr d"
    and rows_d: "nrows d = length ?ks"
    and keys_d: "map fst (columns d) = odoo_columns"
    and cols_d: "\<forall>n s. getitem r n = Inr s \<longrightarrow> getitem d n = Inr (map (\<lambda>k. s ! k) ?ks)"
    by (auto simp: keys_r)
  from fill_defaults_props [OF keys_d] obtain out where
    out: "fill_defaults d = Inr out" and rows_out: "nrows out = nrows d"
    and filled: "\<forall>n \<in> set numeric_fields. \<exists>s. getitem d n = Inr s \<and>
                   getitem out n = Inr (reindex (nrows d) (fillna s (Num 0)))"
    by blast
  have run: "transform L df m = Inr out"
    by (simp add: transform_def r d out)
  have "\<exists>s. getitem d n = Inr s \<and> length s = nrows out \<and>
            getitem out n = Inr (fillna s (Num 0)) \<and>
            NaN \<notin> set (fillna s (Num 0)) \<and>
            (\<forall>k < nrows out. fillna s (Num 0) ! k = (if s ! k = NaN then Num 0 else s ! k))"
    if n: "n \<in> set numeric_fields" for n
  proof -
    from filled n obtain s where
      s: "getitem d n = Inr s"
      and o: "getitem out n = Inr (reindex (nrows d) (fillna s (Num 0)))"
      by blast
    from n have "n \<in> set (map fst (columns r))"
      by (auto simp: keys_r odoo_columns_def numeric_fields_def)
    from getitem_key [OF this] obtain s0 where "getitem r n = Inr s0" ..
    with cols_d s have "s = map (\<lambda>k. s0 ! k) ?ks" by simp
    then have len: "length s = nrows d" by (simp add: rows_d)
    then have "reindex (nrows d) (fillna s (Num 0)) = fillna s (Num 0)"
      by (simp add: reindex_same fillna_props(1))
    with s o len rows_out show ?thesis
      by (auto simp: fillna_props)
  qed
  with r d run rows_out
  show "\<exists>r d out.
       apply_mapping L df m (init_result (nrows df)) = Inr r \<and>
       dropna [''Internal Reference'', ''Name''] r = Inr d \<and>
       transform L df m = Inr out \<and>
       nrows out = nrows d \<and>
       (\<forall>n \<in> set numeric_fields.
          \<exists>s. getitem d n = Inr s \<and> length s = nrows out \<and>
              getitem out n = Inr (fillna s (Num 0)) \<and>
              NaN \<notin> set (fillna s (Num 0)) \<and>
              (\<forall>k < nrows out.
                 fillna s (Num 0) ! k = (if s ! k = NaN then Num 0 else s ! k)))"
    by blast
qed

theorem transform_numeric_cells_witness:
  "clean_float_data example_lib [Str ''n/a'', NaN] 2 ! 0 = NaN \<and>
   (\<exists>r d out.
       apply_mapping example_lib example_source example_mapping
         (init_result (nrows example_source)) = Inr r \<and>
       dropna [''Internal Reference'', ''Name''] r = Inr d \<and>
       transform example_lib example_source example_mapping = Inr out \<and>
       nrows out = nrows d \<and>
       (\<forall>n \<in> set numeric_fields.
          \<exists>s. getitem d n = Inr s \<and> length s = nrows out \<and>
              getitem out n = Inr (fillna s (Num 0)) \<and>
              NaN \<notin> set (fillna s (Num 0)) \<and>
              (\<forall>k < nrows out.
                 fillna s (Num 0) ! k = (if s ! k = NaN then Num 0 else s ! k))))"
proof -
  note inst = transform_numeric_cells
    [of "[Str ''n/a'', NaN]" example_lib 2 example_mapping example_source]
  have cell: "0 < length [Str ''n/a'', NaN] \<and> [Str ''n/a'', NaN] ! 0 = Str ''n/a'' \<and>
      numeric_of_str example_lib ''n/a'' = None"
    by (simp add: example_lib_def)
  have idx: "\<forall>(i, f) \<in> set example_mapping. - int (length (columns example_source)) \<le> i"
    by (simp add: example_mapping_def example_source_def)
  from inst cell have "clean_float_data example_lib [Str ''n/a'', NaN] 2 ! 0 = NaN"
    by blast
  moreover from inst idx have "\<exists>r d out.
       apply_mapping example_lib example_source example_mapping
         (init_result (nrows example_source)) = Inr r \<and>
       dropna [''Internal Reference'', ''Name''] r = Inr d \<and>
       transform example_lib example_source example_mapping = Inr out \<and>
       nrows out = nrows d \<and>
       (\<forall>n \<in> set numeric_fields.
          \<exists>s. getitem d n = Inr s \<and> length s = nrows out \<and>
              getitem out n = Inr (fillna s (Num 0)) \<and>
              NaN \<notin> set (fillna s (Num 0)) \<and>
              (\<forall>k < nrows out.
                 fillna s (Num 0) ! k = (if s ! k = NaN then Num 0 else s ! k)))"
    by blast
  ultimately show ?thesis by (rule conjI)
qed

text \<open>
  Claim C1. A source row whose code is missing keeps its place in the result, with the
  empty string as Internal Reference: text-clean has turned the missing cell into the
  empty string before \<^verbatim>\<open>dropna\<close> looks for missing cells.
\<close>

theorem transform_keeps_empty_reference:
  "transform L
     \<lparr>nrows = 1, columns = [(''code'', [NaN]), (''title'', [Str ''Widget''])]\<rparr>
     [(0, ''internal_reference''), (1, ''name'')] =
   Inr \<lparr>nrows = 1,
        columns = [(''Internal Reference'', [Str []]),
                   (''Name'', [Str ''Widget'']),
                   (''Can be Sold'', [Bool True]),
                   (''Can be Purchased'', [Bool True]),
                   (''Product Type'', [Str ''Goods'']),
                   (''Category'', [Str ''All'']),
                   (''Sale Price'', [Num 0]),
                   (''Cost'', [Num 0]),
                   (''Quantity On Hand'', [Num 0]),
                   (''Weight'', [Str []]),
                   (''Volume'', [Str []]),
                   (''Barcode'', [Str []]),
                   (''Description for Quotations'', [Str []]),
                   (''Description for Receipts'', [Str []]),
                   (''Customer Taxes'', [Str []]),
                   (''Vendor Taxes'', [Str []])]\<rparr>"
  by (simp add: frame_eval)

text \<open>
  Claim C3. The guard of the mapping loop lets a negative index through. On a table of
  two columns the entry with index \<open>-1\<close> is not ignored but maps the last column, and an
  entry with index \<open>-3\<close> makes \<open>transform\<close> fail with \<^verbatim>\<open>IndexError\<close>.
\<close>

theorem transform_negative_index:
  "transform L
     \<lparr>nrows = 1, columns = [(''code'', [Str ''A-1'']), (''title'', [Str ''Widget''])]\<rparr>
     [(0, ''internal_reference''), (- 1, ''name'')] =
   Inr \<lparr>nrows = 1,
        columns = [(''Internal Reference'', [Str ''A-1'']),
                   (''Name'', [Str ''Widget'']),
                   (''Can be Sold'', [Bool True]),
                   (''Can be Purchased'', [Bool True]),
                   (''Product Type'', [Str ''Goods'']),
                   (''Category'', [Str ''All'']),
                   (''Sale Price'', [Num 0]),
                   (''Cost'', [Num 0]),
                   (''Quantity On Hand'', [Num 0]),
                   (''Weight'', [Str []]),
                   (''Volume'', [Str []]),
                   (''Barcode'', [Str []]),
                   (''Description for Quotations'', [Str []]),
                   (''Description for Receipts'', [Str []]),
                   (''Customer Taxes'', [Str []]),
                   (''Vendor Taxes'', [Str []])]\<rparr> \<and>
   transform L
     \<lparr>nrows = 1, columns = [(''code'', [Str ''A-1'']), (''title'', [Str ''Widget''])]\<rparr>
     [(0, ''internal_reference''), (1, ''name''), (- 3, ''list_price'')] =
   Inl IndexError"
  by (simp add: frame_eval)

theorem validate_valid_iff_no_errors_witness:
  "validate_transformed_data example_lib example_table = Inr example_report \<and>
   valid example_report = (errors example_report = [])"
  using validate_example validate_valid_iff_no_errors [OF validate_example] by (rule conjI)

lemma getitem_example_table:
  "getitem example_table ''Internal Reference'' = Inr [Str ''DUP-1'', Str ''DUP-1'']"
  by (simp add: example_table_def getitem_def)

theorem validate_duplicate_warning_witness:
  "validate_transformed_data example_lib example_table = Inr example_report \<and>
   duplicated [Str ''DUP-1'', Str ''DUP-1''] = [False, True] \<and>
   filter (prefix ''Duplicate Internal References found: '') (warnings example_report) =
     [''Duplicate Internal References found: DUP-1'']"
proof -
  note inst = validate_duplicate_warning [OF validate_example getitem_example_table]
  have "duplicated [Str ''DUP-1'', Str ''DUP-1''] = [False, True]"
    by (simp add: duplicated_def)
  moreover from inst
  have "filter (prefix ''Duplicate Internal References found: '') (warnings example_report) =
     [''Duplicate Internal References found: DUP-1'']"
    by (simp add: example_lib_def upt_rec)
  ultimately show ?thesis using validate_example by blast
qed

theorem validate_accepts_empty_strings_witness:
  "getitem blank_table ''Internal Reference'' = Inr [Str [], Str []] \<and>
   getitem blank_table ''Name'' = Inr [Str [], Str []] \<and>
   (\<exists>r. validate_transformed_data example_lib blank_table = Inr r \<and> errors r = [] \<and> valid r)"
proof -
  have 1: "getitem blank_table ''Internal Reference'' = Inr [Str [], Str []]"
    and 2: "getitem blank_table ''Name'' = Inr [Str [], Str []]"
    by (simp_all add: blank_table_def getitem_def)
  have 3: "\<forall>f \<in> set numeric_fields. \<forall>s. getitem blank_table f = Inr s \<longrightarrow>
             (\<forall>c \<in> set s. \<forall>t. c \<noteq> Str t)"
    by (auto simp: numeric_fields_def blank_table_def getitem_def)
  from validate_accepts_empty_strings [OF 1 _ 2 _ 3, of example_lib] 1 2
  show ?thesis by simp
qed

end
